theory Spec2Isabelle
  imports Complex_Main
begin

section \<open>Numbers and names\<close>

text \<open>
  \<^verbatim>\<open>double_t\<close> is modelled as \<open>real\<close>: the arithmetic of the model is exact, so rounding,
  overflow, infinities and NaN are outside the model. The one place where the code tests two
  doubles for equality, the loop of \<^verbatim>\<open>send\<close>, is also modelled with the rounding of the operations
  on the time stamps made explicit (\<open>facilitation_rounded\<close> below). \<^verbatim>\<open>long_t\<close>, \<^verbatim>\<open>port\<close> and \<^verbatim>\<open>rport\<close> are
  \<open>int\<close> (the code does no arithmetic on them), \<^verbatim>\<open>ulong_t position_\<close> is \<open>nat\<close>.

  Isabelle refuses a constant whose name ends in an underscore, so a C++ member \<^verbatim>\<open>x_\<close> is
  written \<open>x_'\<close> throughout.
\<close>

type_synonym double_t = real
type_synonym long_t = int
type_synonym port = int
type_synonym rport = int
type_synonym node_id = nat

text \<open>
  \<^verbatim>\<open>std::pow\<close> of \<^verbatim>\<open><cmath>\<close>, in the case order of the C standard: any base to the power zero
  is one; a positive base is the real power; zero to a positive power is zero; a negative base
  has a real power for an integral exponent only. At a pole (base zero, negative exponent) and
  at a domain error (negative base, exponent not integral) the C function returns an infinity
  or NaN, which no real number stands for; the model returns \<open>0\<close> there. The statements below
  either exclude those arguments or hold whatever value is returned there. In the same way a
  division by zero, which is an infinity or NaN in C++ and \<open>0\<close> in HOL, is excluded wherever a
  statement spells out a quotient: the code divides by \<^verbatim>\<open>tau_plus_\<close> only.
\<close>

definition std_pow :: "double_t \<Rightarrow> double_t \<Rightarrow> double_t" where
  "std_pow x y =
     (if y = 0 then 1
      else if 0 < x then x powr y
      else if x = 0 then 0
      else if y \<in> \<int> then x powi \<lfloor>y\<rfloor>
      else 0)"

text \<open>
  Rounding to the nearest integer, a tie going to the even one.
\<close>

definition round_ties_to_even :: "real \<Rightarrow> int" where
  "round_ties_to_even x =
     (let f = \<lfloor>x\<rfloor>; r = x - of_int f
      in if r < 1 / 2 then f
         else if 1 / 2 < r then f + 1
         else if even f then f else f + 1)"

text \<open>
  The rounding of a real number to the nearest IEEE 754 binary64 number, which a \<^verbatim>\<open>double\<close> is
  on the usual platforms: 53 significant bits, ties to even, gradual underflow below
  \<open>2 powi (- 1022)\<close>. A result beyond the largest finite double is an infinity in C++ and is
  outside the model.
\<close>

definition binary64 :: "real \<Rightarrow> real" where
  "binary64 x =
     (if x = 0 then 0
      else (let e = max \<lfloor>log 2 \<bar>x\<bar>\<rfloor> (- 1022);
                ulp = 2 powi (e - 52)
            in of_int (round_ties_to_even (x / ulp)) * ulp))"

section \<open>The plastic synapse: \<^verbatim>\<open>stdp_pl_connection_hom.h\<close>\<close>

subsection \<open>Data\<close>

text \<open>\<^verbatim>\<open>class STDPPLHomCommonProperties\<close>: the data members common to all connections.\<close>

record STDPPLHomCommonProperties =
  tau_plus_' :: double_t
  lambda_' :: double_t
  alpha_' :: double_t
  mu_' :: double_t

text \<open>
  \<^verbatim>\<open>histentry\<close> is declared in \<^verbatim>\<open>archiving_node.h\<close>, which is not among the sources; \<^verbatim>\<open>send\<close>
  reads its member \<^verbatim>\<open>t_\<close> only.
\<close>

record histentry =
  t_' :: double_t

text \<open>
  The post-synaptic \<^verbatim>\<open>Archiving_Node\<close> is known by the two member functions that \<^verbatim>\<open>send\<close>
  calls. Their bodies are not among the sources, so they are parameters of the model:
  \<open>get_history t1 t2\<close> is the range between the iterators \<^verbatim>\<open>start\<close> and \<^verbatim>\<open>finish\<close> that
  \<^verbatim>\<open>get_history(t1, t2, &start, &finish)\<close> sets, \<open>get_K_value t\<close> the value it returns.
\<close>

record Archiving_Node =
  get_history :: "double_t \<Rightarrow> double_t \<Rightarrow> histentry list"
  get_K_value :: "double_t \<Rightarrow> double_t"

text \<open>
  What \<^verbatim>\<open>send\<close> takes from the simulation kernel: \<open>step_get_ms d\<close> stands for
  \<^verbatim>\<open>Time(Time::step(d)).get_ms()\<close> (class \<^verbatim>\<open>Time\<close> is not among the sources), and \<open>node\<close> is the
  store that the pointer \<^verbatim>\<open>target_\<close> is dereferenced in.
\<close>

record Kernel =
  step_get_ms :: "long_t \<Rightarrow> double_t"
  node :: "node_id \<Rightarrow> Archiving_Node"

text \<open>
  The \<^verbatim>\<open>Event\<close>, by the accessors that \<^verbatim>\<open>send\<close> uses: \<^verbatim>\<open>get_stamp().get_ms()\<close>, \<^verbatim>\<open>set_receiver\<close>,
  \<^verbatim>\<open>set_weight\<close>, \<^verbatim>\<open>set_delay\<close>, \<^verbatim>\<open>set_rport\<close>.
\<close>

record Event =
  stamp_ms :: double_t
  receiver :: "node_id option"
  weight :: double_t
  delay :: long_t
  rport :: rport

text \<open>
  \<^verbatim>\<open>class STDPPLConnectionHom : public ConnectionHetWD\<close>: the inherited members
  \<^verbatim>\<open>target_\<close>, \<^verbatim>\<open>weight_\<close>, \<^verbatim>\<open>delay_\<close>, \<^verbatim>\<open>rport_\<close> and the connection's own \<^verbatim>\<open>Kplus_\<close>.
\<close>

record STDPPLConnectionHom =
  target_' :: node_id
  weight_' :: double_t
  delay_' :: long_t
  rport_' :: rport
  Kplus_' :: double_t

text \<open>
  What a call of \<^verbatim>\<open>send\<close> does to the world outside its local variables, in program order:
  an assignment to \<^verbatim>\<open>weight_\<close>, the call \<^verbatim>\<open>e()\<close> that delivers the event, an assignment to
  \<^verbatim>\<open>Kplus_\<close>.
\<close>

datatype effect =
  Write_weight double_t
| Deliver Event
| Write_Kplus double_t

subsection \<open>Operations\<close>

definition facilitate_' :: "double_t \<Rightarrow> double_t \<Rightarrow> STDPPLHomCommonProperties \<Rightarrow> double_t" where
  "facilitate_' w kplus cp = w + (lambda_' cp * std_pow w (mu_' cp) * kplus)"

definition depress_' :: "double_t \<Rightarrow> double_t \<Rightarrow> STDPPLHomCommonProperties \<Rightarrow> double_t" where
  "depress_' w kminus cp =
     (let new_w = w - (lambda_' cp * alpha_' cp * w * kminus)
      in if new_w > 0.0 then new_w else 0.0)"

text \<open>
  The \<^verbatim>\<open>while (start != finish)\<close> loop of \<^verbatim>\<open>send\<close>, by recursion on the range between the two
  iterators. The state is the connection and the effects so far.
\<close>

fun facilitation ::
  "STDPPLHomCommonProperties \<Rightarrow> double_t \<Rightarrow> double_t \<Rightarrow> histentry list \<Rightarrow>
   STDPPLConnectionHom \<times> effect list \<Rightarrow> STDPPLConnectionHom \<times> effect list" where
  "facilitation cp t_lastspike dendritic_delay [] s = s"
| "facilitation cp t_lastspike dendritic_delay (start # finish) (c, effs) =
     (let minus_dt = t_lastspike - (t_' start + dendritic_delay)
      in if minus_dt = 0
         then facilitation cp t_lastspike dendritic_delay finish (c, effs)
         else
           (let w = facilitate_' (weight_' c) (Kplus_' c * exp (minus_dt / tau_plus_' cp)) cp
            in facilitation cp t_lastspike dendritic_delay finish
                 (c\<lparr>weight_' := w\<rparr>, effs @ [Write_weight w])))"


record sent =
  conn :: STDPPLConnectionHom
  event :: Event
  effects :: "effect list"

definition send ::
  "Kernel \<Rightarrow> Event \<Rightarrow> double_t \<Rightarrow> STDPPLHomCommonProperties \<Rightarrow> STDPPLConnectionHom \<Rightarrow> sent" where
  "send k e t_lastspike cp c =
     (let t_spike = stamp_ms e;
          dendritic_delay = step_get_ms k (delay_' c);
          target = node k (target_' c);
          history = get_history target (t_lastspike - dendritic_delay) (t_spike - dendritic_delay);
          (c1, effs1) = facilitation cp t_lastspike dendritic_delay history (c, []);
          w = depress_' (weight_' c1) (get_K_value target (t_spike - dendritic_delay)) cp;
          c2 = c1\<lparr>weight_' := w\<rparr>;
          e1 = e\<lparr>receiver := Some (target_' c2), weight := weight_' c2,
                 delay := delay_' c2, rport := rport_' c2\<rparr>;
          Kp = Kplus_' c2 * exp ((t_lastspike - t_spike) / tau_plus_' cp) + 1.0;
          c3 = c2\<lparr>Kplus_' := Kp\<rparr>
      in \<lparr>conn = c3, event = e1,
          effects = effs1 @ [Write_weight w, Deliver e1, Write_Kplus Kp]\<rparr>)"

text \<open>
  Any number of \<^verbatim>\<open>send\<close> calls on one connection, each with its own kernel view, event,
  \<^verbatim>\<open>t_lastspike\<close> and common properties.
\<close>

type_synonym call = "Kernel \<times> Event \<times> double_t \<times> STDPPLHomCommonProperties"

fun sends :: "call list \<Rightarrow> STDPPLConnectionHom \<Rightarrow> STDPPLConnectionHom" where
  "sends [] c = c"
| "sends ((k, e, t_lastspike, cp) # calls) c = sends calls (conn (send k e t_lastspike cp c))"

section \<open>The neuron: \<^verbatim>\<open>iaf_chs_2007.h\<close>\<close>

subsection \<open>Data\<close>

text \<open>
  The exceptions: \<^verbatim>\<open>UnknownReceptorType(receptor_type, get_name())\<close> of \<^verbatim>\<open>connect_sender\<close>,
  \<^verbatim>\<open>BadProperty\<close> of \<^verbatim>\<open>set_status\<close>, and the failure that the specification names
  \<open>NoiseExhausted\<close>.
\<close>

datatype error =
  UnknownReceptorType port string
| BadProperty string
| NoiseExhausted

text \<open>
  A \<^verbatim>\<open>DictionaryDatum\<close> maps names to values; the values that the neuron's documented
  parameters take are a \<^verbatim>\<open>double\<close> or a \<^verbatim>\<open>vector<double>\<close>.
\<close>

datatype Datum =
  DoubleDatum double_t
| DoubleVectorDatum "double_t list"

type_synonym DictionaryDatum = "string \<rightharpoonup> Datum"

text \<open>\<^verbatim>\<open>struct State_\<close>.\<close>

record State_ =
  i_syn_ex_' :: double_t
  V_syn_' :: double_t
  V_spike_' :: double_t
  V_m_' :: double_t
  position_' :: nat

text \<open>\<^verbatim>\<open>struct Parameters_\<close>.\<close>

record Parameters_ =
  tau_epsp_' :: double_t
  tau_reset_' :: double_t
  E_L_' :: double_t
  U_th_' :: double_t
  U_epsp_' :: double_t
  U_reset_' :: double_t
  C_' :: double_t
  U_noise_' :: double_t
  noise_' :: "double_t list"

text \<open>\<^verbatim>\<open>struct Variables_\<close>: the five coefficients of the time evolution operator.\<close>

record Variables_ =
  P20_' :: double_t
  P11ex_' :: double_t
  P21ex_' :: double_t
  P22_' :: double_t
  P30_' :: double_t

text \<open>
  \<^verbatim>\<open>class iaf_chs_2007 : public Archiving_Node\<close>, by the members that \<^verbatim>\<open>set_status\<close> touches:
  the members of the parent class (of a type \<open>'a\<close> left open, since \<^verbatim>\<open>archiving_node.h\<close> is not
  among the sources), \<^verbatim>\<open>P_\<close> and \<^verbatim>\<open>S_\<close>.
\<close>

record 'a iaf_chs_2007 =
  Archiving_Node_members :: 'a
  P_' :: Parameters_
  S_' :: State_

subsection \<open>Connection setup\<close>

text \<open>
  \<^verbatim>\<open>iaf_chs_2007::connect_sender(SpikeEvent&, port receptor_type)\<close>; \<open>get_name\<close> is the value
  of \<^verbatim>\<open>get_name()\<close>.
\<close>

definition connect_sender :: "string \<Rightarrow> port \<Rightarrow> error + port" where
  "connect_sender get_name receptor_type =
     (if receptor_type \<noteq> 0 then Inl (UnknownReceptorType receptor_type get_name)
      else Inr 0)"

text \<open>
  \<^verbatim>\<open>void check_event(SpikeEvent&) {}\<close> of \<^verbatim>\<open>STDPPLConnectionHom\<close>: it throws nothing.
\<close>

definition STDPPLConnectionHom_check_event :: "error option" where
  "STDPPLConnectionHom_check_event = None"

text \<open>
  \<^verbatim>\<open>iaf_chs_2007::check_connection(Connection& c, port receptor_type)\<close>: \<open>c_check_event\<close> is
  what \<^verbatim>\<open>c.check_event(e)\<close> throws, if anything, and \<open>target_connect_sender\<close> the virtual
  \<^verbatim>\<open>connect_sender\<close> of \<^verbatim>\<open>c.get_target()\<close>.
\<close>

definition iaf_chs_2007_check_connection ::
  "error option \<Rightarrow> (port \<Rightarrow> error + port) \<Rightarrow> port \<Rightarrow> error + port" where
  "iaf_chs_2007_check_connection c_check_event target_connect_sender receptor_type =
     (case c_check_event of
        Some ex \<Rightarrow> Inl ex
      | None \<Rightarrow> target_connect_sender receptor_type)"

text \<open>
  Modelled from the spec: \<^verbatim>\<open>ConnectionHetWD::check_connection\<close>, whose body
  (\<^verbatim>\<open>connection_het_wd.h\<close>) is not among the sources. By the specification and the comment
  above the declaration of \<^verbatim>\<open>STDPPLConnectionHom::check_connection\<close>, it calls
  \<^verbatim>\<open>check_connection\<close> on the sender \<open>s\<close>, which checks that the receiver \<open>r\<close> accepts the event
  type and the receptor type and confirms the receiver port; the connection then has \<open>r\<close> as
  its target and the confirmed port as its \<^verbatim>\<open>rport_\<close>.
\<close>

definition ConnectionHetWD_check_connection ::
  "(port \<Rightarrow> error + port) \<Rightarrow> node_id \<Rightarrow> rport \<Rightarrow> STDPPLConnectionHom \<Rightarrow>
   error + STDPPLConnectionHom" where
  "ConnectionHetWD_check_connection s_check_connection r receptor_type c =
     (case s_check_connection receptor_type of
        Inl ex \<Rightarrow> Inl ex
      | Inr p \<Rightarrow> Inr (c\<lparr>target_' := r, rport_' := p\<rparr>))"

text \<open>
  \<^verbatim>\<open>STDPPLConnectionHom::check_connection\<close>. The list \<open>registered\<close> holds the arguments of the
  calls of \<^verbatim>\<open>register_stdp_connection\<close> that the receiver has got so far.
\<close>

definition STDPPLConnectionHom_check_connection ::
  "Kernel \<Rightarrow> (port \<Rightarrow> error + port) \<Rightarrow> node_id \<Rightarrow> rport \<Rightarrow> double_t \<Rightarrow>
   STDPPLConnectionHom \<Rightarrow> double_t list \<Rightarrow> error + STDPPLConnectionHom \<times> double_t list" where
  "STDPPLConnectionHom_check_connection k s_check_connection r receptor_type t_lastspike c
       registered =
     (case ConnectionHetWD_check_connection s_check_connection r receptor_type c of
        Inl ex \<Rightarrow> Inl ex
      | Inr c1 \<Rightarrow> Inr (c1, registered @ [t_lastspike - step_get_ms k (delay_' c1)]))"

subsection \<open>Setting the status\<close>

text \<open>
  \<^verbatim>\<open>updateValue<double>(d, n, x)\<close>: the value stored under \<open>n\<close>, if there is one, else \<open>x\<close>
  as it was.
\<close>

definition updateValue :: "DictionaryDatum \<Rightarrow> string \<Rightarrow> double_t \<Rightarrow> double_t" where
  "updateValue d n x = (case d n of Some (DoubleDatum v) \<Rightarrow> v | _ \<Rightarrow> x)"

text \<open>
  Modelled from the spec: \<^verbatim>\<open>Parameters_::set(const DictionaryDatum&, State_& s)\<close>, whose body
  (\<^verbatim>\<open>iaf_chs_2007.cpp\<close>) is not among the sources. It takes the documented parameters
  \<^verbatim>\<open>tau_epsp\<close>, \<^verbatim>\<open>tau_reset\<close>, \<^verbatim>\<open>U_epsp\<close>, \<^verbatim>\<open>U_reset\<close>, \<^verbatim>\<open>U_noise\<close> and \<^verbatim>\<open>noise\<close> from the
  dictionary. By the note at its declaration the state is passed so that the position can be
  reset if the noise vector has been filled with new data (the specification: the cursor is
  reset to 0 if the noise sequence is replaced). The candidate is then validated: a time
  constant that is not positive is rejected. The result is what the call throws or the
  updated parameters, together with the state \<open>s\<close> as the call leaves it: \<open>s\<close> is a reference,
  so what is written to it stays written when the call throws.
\<close>

definition Parameters_set ::
  "DictionaryDatum \<Rightarrow> Parameters_ \<Rightarrow> State_ \<Rightarrow> (error + Parameters_) \<times> State_" where
  "Parameters_set d p s =
     (let p1 = p\<lparr>tau_epsp_' := updateValue d ''tau_epsp'' (tau_epsp_' p),
                 tau_reset_' := updateValue d ''tau_reset'' (tau_reset_' p),
                 U_epsp_' := updateValue d ''U_epsp'' (U_epsp_' p),
                 U_reset_' := updateValue d ''U_reset'' (U_reset_' p),
                 U_noise_' := updateValue d ''U_noise'' (U_noise_' p)\<rparr>;
          (p2, s1) = (case d ''noise'' of
                        Some (DoubleVectorDatum v) \<Rightarrow> (p1\<lparr>noise_' := v\<rparr>, s\<lparr>position_' := 0\<rparr>)
                      | _ \<Rightarrow> (p1, s))
      in (if tau_epsp_' p2 \<le> 0 \<or> tau_reset_' p2 \<le> 0
          then Inl (BadProperty ''All time constants must be strictly positive.'')
          else Inr p2, s1))"

text \<open>
  \<^verbatim>\<open>iaf_chs_2007::set_status\<close>. \<^verbatim>\<open>State_::set\<close> and \<^verbatim>\<open>Archiving_Node::set_status\<close> are not
  among the sources and are parameters: each returns what it throws or the updated object.
  The result is what \<^verbatim>\<open>set_status\<close> throws, if anything, and the neuron as the call leaves it.
  \<^verbatim>\<open>ptmp.set(d, S_)\<close> is passed the member \<^verbatim>\<open>S_\<close> itself, and the copy \<^verbatim>\<open>stmp\<close> is taken
  after that call.
\<close>

definition set_status ::
  "(DictionaryDatum \<Rightarrow> State_ \<Rightarrow> error + State_) \<Rightarrow> (DictionaryDatum \<Rightarrow> 'a \<Rightarrow> error + 'a) \<Rightarrow>
   DictionaryDatum \<Rightarrow> 'a iaf_chs_2007 \<Rightarrow> error option \<times> 'a iaf_chs_2007" where
  "set_status State_set Archiving_Node_set_status d n =
     (let (r, S_live) = Parameters_set d (P_' n) (S_' n);
          n1 = n\<lparr>S_' := S_live\<rparr>
      in case r of
           Inl ex \<Rightarrow> (Some ex, n1)
         | Inr ptmp \<Rightarrow>
             (case State_set d (S_' n1) of
                Inl ex \<Rightarrow> (Some ex, n1)
              | Inr stmp \<Rightarrow>
                  (case Archiving_Node_set_status d (Archiving_Node_members n1) of
                     Inl ex \<Rightarrow> (Some ex, n1)
                   | Inr a \<Rightarrow>
                       (None, n1\<lparr>Archiving_Node_members := a, P_' := ptmp, S_' := stmp\<rparr>))))"

subsection \<open>The step\<close>

text \<open>
  The linear propagator maps the coefficients, the four state variables
  (\<^verbatim>\<open>i_syn_ex_\<close>, \<^verbatim>\<open>V_syn_\<close>, \<^verbatim>\<open>V_spike_\<close>, \<^verbatim>\<open>V_m_\<close>), the buffered synaptic input and the buffered
  current to the four new state variables. The specification gives no formula for it, nor
  for the after-spike reset, so both are parameters of the step.
\<close>

type_synonym propagator =
  "Variables_ \<Rightarrow> double_t \<times> double_t \<times> double_t \<times> double_t \<Rightarrow> double_t \<Rightarrow> double_t \<Rightarrow>
   double_t \<times> double_t \<times> double_t \<times> double_t"

text \<open>
  Modelled from the spec: the read of the noise sequence in the step, whose code
  (\<^verbatim>\<open>iaf_chs_2007::update\<close> in \<^verbatim>\<open>iaf_chs_2007.cpp\<close>) is not among the sources. The noise value
  is read at the cursor; the step fails with \<open>NoiseExhausted\<close> if no value remains.
\<close>

definition read_noise :: "Parameters_ \<Rightarrow> State_ \<Rightarrow> error + double_t" where
  "read_noise p s =
     (if position_' s < length (noise_' p) then Inr (noise_' p ! position_' s)
      else Inl NoiseExhausted)"

text \<open>
  Modelled from the spec: the operation \<open>step\<close> (\<^verbatim>\<open>iaf_chs_2007::update\<close>, not among the
  sources). It applies the linear propagator, which also adds the buffered synaptic
  input to the synaptic current, adds the noise scale times the noise value to the membrane
  potential and increments the cursor by 1; if the membrane potential has then reached the
  threshold the neuron spikes and the reset is applied to the spike waveform component.
\<close>

definition step ::
  "propagator \<Rightarrow> (Parameters_ \<Rightarrow> double_t \<Rightarrow> double_t) \<Rightarrow> Parameters_ \<Rightarrow> Variables_ \<Rightarrow>
   State_ \<Rightarrow> double_t \<Rightarrow> double_t \<Rightarrow> error + State_ \<times> bool" where
  "step propagate reset p v s buffered_synaptic_input buffered_current =
     (case read_noise p s of
        Inl ex \<Rightarrow> Inl ex
      | Inr noise_value \<Rightarrow>
          (let (i_syn, v_syn, v_spike, v_m) =
                 propagate v (i_syn_ex_' s, V_syn_' s, V_spike_' s, V_m_' s)
                   buffered_synaptic_input buffered_current;
               v_m1 = v_m + U_noise_' p * noise_value;
               spiked = (v_m1 \<ge> U_th_' p);
               v_spike1 = (if spiked then reset p v_spike else v_spike)
           in Inr (\<lparr>i_syn_ex_' = i_syn, V_syn_' = v_syn, V_spike_' = v_spike1, V_m_' = v_m1,
                     position_' = position_' s + 1\<rparr>, spiked)))"

text \<open>
  Modelled from the spec: the step driver, which calls \<open>step\<close> once per tick with that tick's
  buffered inputs and stops at the first failure. Besides the last state it returns the
  spike flags and the noise values that the calls have read, in the order of the calls.
\<close>

fun steps ::
  "propagator \<Rightarrow> (Parameters_ \<Rightarrow> double_t \<Rightarrow> double_t) \<Rightarrow> Parameters_ \<Rightarrow> Variables_ \<Rightarrow>
   (double_t \<times> double_t) list \<Rightarrow> State_ \<Rightarrow> error + State_ \<times> bool list \<times> double_t list" where
  "steps propagate reset p v [] s = Inr (s, [], [])"
| "steps propagate reset p v ((syn, cur) # inputs) s =
     (case step propagate reset p v s syn cur of
        Inl ex \<Rightarrow> Inl ex
      | Inr (s1, spiked) \<Rightarrow>
          (case steps propagate reset p v inputs s1 of
             Inl ex \<Rightarrow> Inl ex
           | Inr (s2, spikes, consumed) \<Rightarrow>
               Inr (s2, spiked # spikes, noise_' p ! position_' s # consumed)))"

section \<open>The statements of the specification, and concrete inputs\<close>



text \<open>
  The body of the loop in exact arithmetic, with the power as \<^verbatim>\<open>std::pow\<close> computes it, as a
  function of the weight and the entry.
\<close>

definition spec_pairing ::
  "STDPPLHomCommonProperties \<Rightarrow> double_t \<Rightarrow> double_t \<Rightarrow> double_t \<Rightarrow> double_t \<Rightarrow> histentry \<Rightarrow>
   double_t" where
  "spec_pairing cp previous_presynaptic_spike_time dly presynaptic_trace w h =
     (let Delta_t = previous_presynaptic_spike_time - (t_' h + dly)
      in if Delta_t = 0 then w
         else w + lambda_' cp * std_pow w (mu_' cp) *
                    (presynaptic_trace * exp (Delta_t / tau_plus_' cp)))"

text \<open>
  The two orders of the last steps of \<^verbatim>\<open>send\<close>, read off the effects from the last one
  backwards. In the order that the specification states, the event is delivered after the
  assignment to \<^verbatim>\<open>Kplus_\<close>; in the other, before it. In both, the assignment of the depressed
  weight comes before these two, and only potentiation writes come before that.
\<close>

fun is_Write_weight :: "effect \<Rightarrow> bool" where
  "is_Write_weight (Write_weight w) = True"
| "is_Write_weight (Deliver ev) = False"
| "is_Write_weight (Write_Kplus kp) = False"

fun ends_update_then_forward :: "effect list \<Rightarrow> bool" where
  "ends_update_then_forward (Deliver ev # Write_Kplus kp # Write_weight w # pots) =
     list_all is_Write_weight pots"
| "ends_update_then_forward effs = False"

fun ends_forward_then_update :: "effect list \<Rightarrow> bool" where
  "ends_forward_then_update (Write_Kplus kp # Deliver ev # Write_weight w # pots) =
     list_all is_Write_weight pots"
| "ends_forward_then_update effs = False"

definition spec_step_order :: "effect list \<Rightarrow> bool" where
  "spec_step_order effs = ends_update_then_forward (rev effs)"

definition code_step_order :: "effect list \<Rightarrow> bool" where
  "code_step_order effs = ends_forward_then_update (rev effs)"

text \<open>
  A post-synaptic neuron with spikes at 2, 5 and 8 ms and a trace value of 2, a kernel with
  steps of 1 ms, an event, common properties and a connection to evaluate the synapse on.
\<close>

definition ex_post :: Archiving_Node where
  "ex_post = \<lparr>get_history = (\<lambda>t1 t2. filter (\<lambda>h. t1 < t_' h \<and> t_' h \<le> t2)
                                   [\<lparr>t_' = 2\<rparr>, \<lparr>t_' = 5\<rparr>, \<lparr>t_' = 8\<rparr>]),
              get_K_value = (\<lambda>t. 2)\<rparr>"

definition ex_kernel :: Kernel where
  "ex_kernel = \<lparr>step_get_ms = (\<lambda>d. real_of_int d), node = (\<lambda>n. ex_post)\<rparr>"

definition ex_event :: "double_t \<Rightarrow> Event" where
  "ex_event t = \<lparr>stamp_ms = t, receiver = None, weight = 0, delay = 0, rport = 0\<rparr>"

definition ex_cp :: STDPPLHomCommonProperties where
  "ex_cp = \<lparr>tau_plus_' = 20, lambda_' = 0.1, alpha_' = 1, mu_' = 0.4\<rparr>"

definition ex_conn :: STDPPLConnectionHom where
  "ex_conn = \<lparr>target_' = 7, weight_' = 1, delay_' = 1, rport_' = 0, Kplus_' = 1\<rparr>"

text \<open>
  Three doubles: \<open>ex_t_post\<close> is the double \<^verbatim>\<open>0.1\<close>, \<open>ex_delay\<close> the double \<^verbatim>\<open>3 * 0.1\<close> and
  \<open>ex_t_lastspike\<close> the double \<^verbatim>\<open>4 * 0.1\<close> (lemma \<open>ex_doubles\<close> below); common properties
  with a weight exponent of one half and a connection with a weight of 4.
\<close>

definition ex_t_post :: double_t where
  "ex_t_post = 3602879701896397 / 2 ^ 55"

definition ex_delay :: double_t where
  "ex_delay = 5404319552844596 / 2 ^ 54"

definition ex_t_lastspike :: double_t where
  "ex_t_lastspike = 3602879701896397 / 2 ^ 53"

definition ex_cp_half :: STDPPLHomCommonProperties where
  "ex_cp_half = \<lparr>tau_plus_' = 20, lambda_' = 0.1, alpha_' = 1, mu_' = 1 / 2\<rparr>"

definition ex_conn_four :: STDPPLConnectionHom where
  "ex_conn_four = \<lparr>target_' = 7, weight_' = 4, delay_' = 3, rport_' = 0, Kplus_' = 1\<rparr>"

text \<open>
  A neuron whose noise cursor stands at 3, with instances of the two functions that
  \<^verbatim>\<open>set_status\<close> takes as parameters: a \<^verbatim>\<open>State_::set\<close> that takes \<^verbatim>\<open>V_m\<close> from the dictionary and
  throws nothing, and a parent class that keeps one time constant and rejects a value of it
  that is not positive. The first dictionary brings a new noise vector and a value that the
  parent rejects, the second a new noise vector and a time constant that \<^verbatim>\<open>Parameters_::set\<close>
  rejects.
\<close>

definition ex_State_set :: "DictionaryDatum \<Rightarrow> State_ \<Rightarrow> error + State_" where
  "ex_State_set d s = Inr (s\<lparr>V_m_' := updateValue d ''V_m'' (V_m_' s)\<rparr>)"

definition ex_Archiving_Node_set_status :: "DictionaryDatum \<Rightarrow> double_t \<Rightarrow> error + double_t" where
  "ex_Archiving_Node_set_status d tau_minus =
     (let new_tau_minus = updateValue d ''tau_minus'' tau_minus
      in if new_tau_minus \<le> 0
         then Inl (BadProperty ''All time constants must be strictly positive.'')
         else Inr new_tau_minus)"

definition ex_neuron :: "double_t iaf_chs_2007" where
  "ex_neuron =
     \<lparr>Archiving_Node_members = 20,
      P_' = \<lparr>tau_epsp_' = 8.5, tau_reset_' = 15.4, E_L_' = 0, U_th_' = 1, U_epsp_' = 0.77,
             U_reset_' = 2.31, C_' = 250, U_noise_' = 0.1, noise_' = [0.1, 0.2, 0.3, 0.4, 0.5]\<rparr>,
      S_' = \<lparr>i_syn_ex_' = 0, V_syn_' = 0, V_spike_' = 0, V_m_' = 0, position_' = 3\<rparr>\<rparr>"

definition ex_dict :: DictionaryDatum where
  "ex_dict = [''noise'' \<mapsto> DoubleVectorDatum [0.9, 0.8], ''tau_minus'' \<mapsto> DoubleDatum (- 1)]"

definition ex_dict_tau :: DictionaryDatum where
  "ex_dict_tau = [''noise'' \<mapsto> DoubleVectorDatum [0.9, 0.8], ''tau_epsp'' \<mapsto> DoubleDatum (- 1)]"

text \<open>A propagator, a reset and coefficients to run the step on.\<close>

definition ex_propagate :: propagator where
  "ex_propagate v x syn cur =
     (case x of (i_syn, v_syn, v_spike, v_m) \<Rightarrow>
        (i_syn * P11ex_' v + syn, v_syn * P22_' v + i_syn * P21ex_' v, v_spike * P30_' v,
         v_syn * P22_' v + i_syn * P21ex_' v + v_spike * P30_' v))"

definition ex_reset :: "Parameters_ \<Rightarrow> double_t \<Rightarrow> double_t" where
  "ex_reset p v_spike = v_spike - U_reset_' p"

definition ex_Variables :: Variables_ where
  "ex_Variables = \<lparr>P20_' = 0, P11ex_' = 0.5, P21ex_' = 0.25, P22_' = 0.5, P30_' = 0.5\<rparr>"

section \<open>Facts about the synapse\<close>

subsection \<open>The potentiation loop\<close>

lemma facilitation_skip:
  assumes "t_lastspike - (t_' h + dd) = 0"
  shows "facilitation cp t_lastspike dd (h # hs) (c, effs) =
         facilitation cp t_lastspike dd hs (c, effs)"
  using assms by (simp add: Let_def)

lemma facilitation_pair:
  assumes "t_lastspike - (t_' h + dd) \<noteq> 0"
  shows "facilitation cp t_lastspike dd (h # hs) (c, effs) =
         facilitation cp t_lastspike dd hs
           (c\<lparr>weight_' := facilitate_' (weight_' c)
                   (Kplus_' c * exp ((t_lastspike - (t_' h + dd)) / tau_plus_' cp)) cp\<rparr>,
            effs @ [Write_weight (facilitate_' (weight_' c)
                   (Kplus_' c * exp ((t_lastspike - (t_' h + dd)) / tau_plus_' cp)) cp)])"
  using assms by (simp add: Let_def)

lemma facilitation_weight:
  "weight_' (fst (facilitation cp t_lastspike dd hs (c, effs))) =
     foldl (spec_pairing cp t_lastspike dd (Kplus_' c)) (weight_' c) hs"
proof (induction hs arbitrary: c effs)
  case Nil
  show ?case by simp
next
  case (Cons h hs)
  show ?case
  proof (cases "t_lastspike - (t_' h + dd) = 0")
    case True
    have "spec_pairing cp t_lastspike dd (Kplus_' c) (weight_' c) h = weight_' c"
      using True by (simp add: spec_pairing_def Let_def)
    then show ?thesis
      using Cons.IH [of c effs] by (simp only: facilitation_skip [OF True] foldl_Cons)
  next
    case False
    let ?w = "facilitate_' (weight_' c)
                (Kplus_' c * exp ((t_lastspike - (t_' h + dd)) / tau_plus_' cp)) cp"
    have "spec_pairing cp t_lastspike dd (Kplus_' c) (weight_' c) h = ?w"
      using False by (simp add: spec_pairing_def Let_def facilitate_'_def)
    then show ?thesis
      unfolding facilitation_pair [OF False]
      using Cons.IH [of "c\<lparr>weight_' := ?w\<rparr>" "effs @ [Write_weight ?w]"]
      by simp
  qed
qed

lemma facilitation_more:
  "Kplus_' (fst (facilitation cp t_lastspike dd hs (c, effs))) = Kplus_' c \<and>
   target_' (fst (facilitation cp t_lastspike dd hs (c, effs))) = target_' c \<and>
   delay_' (fst (facilitation cp t_lastspike dd hs (c, effs))) = delay_' c \<and>
   rport_' (fst (facilitation cp t_lastspike dd hs (c, effs))) = rport_' c"
proof (induction hs arbitrary: c effs)
  case Nil
  show ?case by simp
next
  case (Cons h hs)
  show ?case
  proof (cases "t_lastspike - (t_' h + dd) = 0")
    case True
    show ?thesis using Cons.IH [of c effs] by (simp only: facilitation_skip [OF True])
  next
    case False
    let ?w = "facilitate_' (weight_' c)
                (Kplus_' c * exp ((t_lastspike - (t_' h + dd)) / tau_plus_' cp)) cp"
    show ?thesis
      unfolding facilitation_pair [OF False]
      using Cons.IH [of "c\<lparr>weight_' := ?w\<rparr>" "effs @ [Write_weight ?w]"]
      by simp
  qed
qed

lemma facilitation_effects:
  "\<exists>ws. snd (facilitation cp t_lastspike dd hs (c, effs)) = effs @ map Write_weight ws \<and>
        length ws = length (filter (\<lambda>h. t_lastspike - (t_' h + dd) \<noteq> 0) hs)"
proof (induction hs arbitrary: c effs)
  case Nil
  show ?case by simp
next
  case (Cons h hs)
  show ?case
  proof (cases "t_lastspike - (t_' h + dd) = 0")
    case True
    obtain ws where ws:
        "snd (facilitation cp t_lastspike dd hs (c, effs)) = effs @ map Write_weight ws"
        "length ws = length (filter (\<lambda>h. t_lastspike - (t_' h + dd) \<noteq> 0) hs)"
      using Cons.IH [of c effs] by blast
    have "length ws = length (filter (\<lambda>h. t_lastspike - (t_' h + dd) \<noteq> 0) (h # hs))"
      using True ws(2) by simp
    then show ?thesis using ws(1) by (auto simp only: facilitation_skip [OF True])
  next
    case False
    let ?w = "facilitate_' (weight_' c)
                (Kplus_' c * exp ((t_lastspike - (t_' h + dd)) / tau_plus_' cp)) cp"
    obtain ws where ws:
        "snd (facilitation cp t_lastspike dd hs (c\<lparr>weight_' := ?w\<rparr>, effs @ [Write_weight ?w])) =
           (effs @ [Write_weight ?w]) @ map Write_weight ws"
        "length ws = length (filter (\<lambda>h. t_lastspike - (t_' h + dd) \<noteq> 0) hs)"
      using Cons.IH [of "c\<lparr>weight_' := ?w\<rparr>" "effs @ [Write_weight ?w]"] by blast
    have "snd (facilitation cp t_lastspike dd (h # hs) (c, effs)) =
          effs @ map Write_weight (?w # ws)"
      unfolding facilitation_pair [OF False] using ws(1) by simp
    moreover have "length (?w # ws) =
                   length (filter (\<lambda>h. t_lastspike - (t_' h + dd) \<noteq> 0) (h # hs))"
      using False ws(2) by simp
    ultimately show ?thesis by blast
  qed
qed

subsection \<open>The potentiation loop with rounding\<close>








text \<open>The value of \<open>binary64\<close> at a number whose binary exponent is known.\<close>

lemma floor_log2_eq:
  assumes "2 powi e \<le> x" and "x < 2 powi (e + 1)"
  shows "\<lfloor>log 2 x\<rfloor> = e"
proof -
  have p: "0 < (2::real) powi e" by simp
  have pos: "0 < x" using assms(1) p by linarith
  have a: "(2::real) powr (real_of_int e) = 2 powi e"
    by (simp add: powr_real_of_int')
  have b: "(2::real) powr (real_of_int (e + 1)) = 2 powi (e + 1)"
    by (rule powr_real_of_int') simp_all
  show ?thesis
    using floor_log_eq_powr_iff [OF pos, of 2 e] assms a b by simp
qed

lemma round_ties_to_even_int: "round_ties_to_even (of_int n) = n"
  by (simp add: round_ties_to_even_def)

lemma round_ties_to_even_half:
  "round_ties_to_even (of_int n + 1 / 2) = (if even n then n else n + 1)"
proof -
  have "\<lfloor>of_int n + (1 / 2 :: real)\<rfloor> = n" by linarith
  then show ?thesis by (simp add: round_ties_to_even_def Let_def)
qed

lemma binary64_eval:
  assumes "2 powi e \<le> \<bar>x\<bar>" and "\<bar>x\<bar> < 2 powi (e + 1)" and "- 1022 \<le> e"
  shows "binary64 x = of_int (round_ties_to_even (x / 2 powi (e - 52))) * 2 powi (e - 52)"
proof -
  have p: "0 < (2::real) powi e" by simp
  have nz: "x \<noteq> 0"
  proof
    assume "x = 0"
    then have "(2::real) powi e \<le> 0" using assms(1) by simp
    then show False using p by linarith
  qed
  have "\<lfloor>log 2 \<bar>x\<bar>\<rfloor> = e" using assms(1,2) by (rule floor_log2_eq)
  then show ?thesis using nz assms(3) by (simp add: binary64_def Let_def max_def)
qed


text \<open>
  The three example values are the doubles that the decimal literal \<^verbatim>\<open>0.1\<close> and the products
  \<^verbatim>\<open>3 * 0.1\<close> and \<^verbatim>\<open>4 * 0.1\<close> evaluate to; the sum of the first two rounds to the third (the
  exact sum lies halfway between two doubles), and the sum of \<^verbatim>\<open>0.5\<close> and the delay is a double.
\<close>

lemma ex_doubles:
  "binary64 (1 / 10) = ex_t_post \<and>
   binary64 (3 * ex_t_post) = ex_delay \<and>
   binary64 (4 * ex_t_post) = ex_t_lastspike"
proof (intro conjI)
  have "binary64 (1 / 10) =
        of_int (round_ties_to_even ((1 / 10) / 2 powi (- 4 - 52))) * 2 powi (- 4 - 52)"
    by (rule binary64_eval) (simp_all add: power_int_minus)
  also have "\<dots> = ex_t_post"
    by (simp add: round_ties_to_even_def Let_def ex_t_post_def power_int_minus)
  finally show "binary64 (1 / 10) = ex_t_post" .
  have "binary64 (3 * ex_t_post) =
        of_int (round_ties_to_even ((3 * ex_t_post) / 2 powi (- 2 - 52))) * 2 powi (- 2 - 52)"
    by (rule binary64_eval) (simp_all add: power_int_minus ex_t_post_def)
  also have "\<dots> = ex_delay"
    by (simp add: round_ties_to_even_def Let_def ex_t_post_def ex_delay_def power_int_minus)
  finally show "binary64 (3 * ex_t_post) = ex_delay" .
  have "binary64 (4 * ex_t_post) =
        of_int (round_ties_to_even ((4 * ex_t_post) / 2 powi (- 2 - 52))) * 2 powi (- 2 - 52)"
    by (rule binary64_eval) (simp_all add: power_int_minus ex_t_post_def)
  also have "\<dots> = ex_t_lastspike"
    by (simp add: round_ties_to_even_def Let_def ex_t_post_def ex_t_lastspike_def power_int_minus)
  finally show "binary64 (4 * ex_t_post) = ex_t_lastspike" .
qed



text \<open>
  In exact arithmetic the entry at the double \<^verbatim>\<open>0.1\<close> is paired, not skipped: the exact sum
  differs from \<^verbatim>\<open>t_lastspike\<close>.
\<close>

lemma ex_exact_arithmetic_pairs:
  "facilitation ex_cp_half ex_t_lastspike ex_delay [\<lparr>t_' = ex_t_post\<rparr>] (ex_conn_four, []) \<noteq>
     (ex_conn_four, [])"
  by (simp add: Let_def ex_t_post_def ex_delay_def ex_t_lastspike_def)

subsection \<open>Depression and the whole of \<^verbatim>\<open>send\<close>\<close>

lemma depress_max: "depress_' w kminus cp = max 0 (w - lambda_' cp * alpha_' cp * w * kminus)"
  by (simp add: depress_'_def Let_def max_def)

lemma depress_nonneg: "0 \<le> depress_' w kminus cp"
  by (simp add: depress_'_def Let_def)

lemma send_conn:
  "conn (send k e t_lastspike cp c) =
     (fst (facilitation cp t_lastspike (step_get_ms k (delay_' c))
             (get_history (node k (target_' c)) (t_lastspike - step_get_ms k (delay_' c))
                (stamp_ms e - step_get_ms k (delay_' c))) (c, [])))
     \<lparr>weight_' :=
        depress_'
          (weight_' (fst (facilitation cp t_lastspike (step_get_ms k (delay_' c))
             (get_history (node k (target_' c)) (t_lastspike - step_get_ms k (delay_' c))
                (stamp_ms e - step_get_ms k (delay_' c))) (c, []))))
          (get_K_value (node k (target_' c)) (stamp_ms e - step_get_ms k (delay_' c))) cp,
      Kplus_' :=
        Kplus_' (fst (facilitation cp t_lastspike (step_get_ms k (delay_' c))
             (get_history (node k (target_' c)) (t_lastspike - step_get_ms k (delay_' c))
                (stamp_ms e - step_get_ms k (delay_' c))) (c, []))) *
          exp ((t_lastspike - stamp_ms e) / tau_plus_' cp) + 1\<rparr>"
  by (simp add: send_def Let_def split: prod.splits)

lemma send_weight:
  "weight_' (conn (send k e t_lastspike cp c)) =
     depress_'
       (weight_' (fst (facilitation cp t_lastspike (step_get_ms k (delay_' c))
          (get_history (node k (target_' c)) (t_lastspike - step_get_ms k (delay_' c))
             (stamp_ms e - step_get_ms k (delay_' c))) (c, []))))
       (get_K_value (node k (target_' c)) (stamp_ms e - step_get_ms k (delay_' c))) cp"
  by (simp add: send_conn)

lemma send_weight_nonneg: "0 \<le> weight_' (conn (send k e t_lastspike cp c))"
  by (simp only: send_weight depress_nonneg)

lemma send_Kplus_eq:
  "Kplus_' (conn (send k e t_lastspike cp c)) =
     Kplus_' c * exp ((t_lastspike - stamp_ms e) / tau_plus_' cp) + 1"
  by (simp add: send_conn facilitation_more)

lemma send_fixed:
  "target_' (conn (send k e t_lastspike cp c)) = target_' c \<and>
   delay_' (conn (send k e t_lastspike cp c)) = delay_' c \<and>
   rport_' (conn (send k e t_lastspike cp c)) = rport_' c"
  by (simp add: send_conn facilitation_more)

lemma effects_send:
  "effects (send k e t_lastspike cp c) =
     snd (facilitation cp t_lastspike (step_get_ms k (delay_' c))
            (get_history (node k (target_' c)) (t_lastspike - step_get_ms k (delay_' c))
               (stamp_ms e - step_get_ms k (delay_' c))) (c, [])) @
     [Write_weight (weight_' (conn (send k e t_lastspike cp c))),
      Deliver (event (send k e t_lastspike cp c)),
      Write_Kplus (Kplus_' (conn (send k e t_lastspike cp c)))]"
  by (simp add: send_def Let_def split: prod.splits)

lemma event_send:
  "event (send k e t_lastspike cp c) =
     e\<lparr>receiver := Some (target_' c), weight := weight_' (conn (send k e t_lastspike cp c)),
       delay := delay_' c, rport := rport_' c\<rparr>"
proof -
  obtain c1 effs1 where f:
    "facilitation cp t_lastspike (step_get_ms k (delay_' c))
       (get_history (node k (target_' c)) (t_lastspike - step_get_ms k (delay_' c))
          (stamp_ms e - step_get_ms k (delay_' c))) (c, []) = (c1, effs1)"
    by (cases "facilitation cp t_lastspike (step_get_ms k (delay_' c))
       (get_history (node k (target_' c)) (t_lastspike - step_get_ms k (delay_' c))
          (stamp_ms e - step_get_ms k (delay_' c))) (c, [])")
  have "target_' c1 = target_' c \<and> delay_' c1 = delay_' c \<and> rport_' c1 = rport_' c"
    using facilitation_more [of cp t_lastspike "step_get_ms k (delay_' c)" _ c "[]"] f
    by (metis fst_conv)
  then show ?thesis by (simp add: send_def Let_def f)
qed

lemma list_all_map_Write_weight: "list_all is_Write_weight (map Write_weight ws)"
  by (induction ws) simp_all

lemma std_pow_zero_exponent: "std_pow x 0 = 1"
  by (simp add: std_pow_def)

lemma std_pow_zero_base: "0 < y \<Longrightarrow> std_pow 0 y = 0"
  by (simp add: std_pow_def)

lemma foldl_spec_pairing_zero:
  assumes "0 < mu_' cp"
  shows "foldl (spec_pairing cp t_lastspike dd kp) 0 hs = 0"
proof (induction hs)
  case Nil
  show ?case by simp
next
  case (Cons h hs)
  have "spec_pairing cp t_lastspike dd kp 0 h = 0"
    using assms by (simp add: spec_pairing_def Let_def std_pow_zero_base)
  then show ?case using Cons.IH by simp
qed

subsection \<open>The claims about the synapse\<close>

text \<open>
  Claim C1. For a synapse with a weight that is not negative and any common properties, after
  any number of \<^verbatim>\<open>send\<close> calls the weight is not negative; and every depression step returns
  the maximum of 0 and the depressed weight. (Each \<^verbatim>\<open>send\<close> ends its changes of the weight
  with \<^verbatim>\<open>depress_\<close>, whose result is either greater than 0 or the constant 0.)
\<close>

theorem weight_nonneg_after_sends:
  assumes "0 \<le> weight_' c"
  shows "0 \<le> weight_' (sends calls c) \<and>
         depress_' w kminus cp = max 0 (w - lambda_' cp * alpha_' cp * w * kminus)"
proof
  show "0 \<le> weight_' (sends calls c)"
    using assms
  proof (induction calls arbitrary: c)
    case Nil
    then show ?case by simp
  next
    case (Cons call calls)
    obtain k e t_lastspike cp where call: "call = (k, e, t_lastspike, cp)" by (cases call)
    show ?case using Cons.IH [OF send_weight_nonneg [of k e t_lastspike cp c]]
      by (simp add: call)
  qed
  show "depress_' w kminus cp = max 0 (w - lambda_' cp * alpha_' cp * w * kminus)"
    by (rule depress_max)
qed

theorem weight_nonneg_after_sends_witness:
  "0 \<le> weight_' ex_conn \<and>
   0 \<le> weight_' (sends [(ex_kernel, ex_event 10, 0, ex_cp),
                        (ex_kernel, ex_event 12, 10, ex_cp\<lparr>lambda_' := - 3\<rparr>)] ex_conn) \<and>
   depress_' 1 2 ex_cp = max 0 (1 - lambda_' ex_cp * alpha_' ex_cp * 1 * 2)"
proof -
  have h: "0 \<le> weight_' ex_conn" by (simp add: ex_conn_def)
  show ?thesis
    using h weight_nonneg_after_sends [OF h, of "[(ex_kernel, ex_event 10, 0, ex_cp),
                        (ex_kernel, ex_event 12, 10, ex_cp\<lparr>lambda_' := - 3\<rparr>)]" 1 2 ex_cp]
    by blast
qed

text \<open>
  Claim C2. The depression step of \<^verbatim>\<open>send\<close> sets the weight to the maximum of 0 and
  \<open>weight_before - lambda * alpha * weight_before * trace_value\<close>, where \<open>weight_before\<close> is the
  weight that the potentiation loop leaves and \<open>trace_value\<close> is \<^verbatim>\<open>get_K_value\<close> of the target
  at the time of the spike minus the dendritic delay. For a weight of 1.0, a learning rate of
  0.1, an asymmetry of 1.0 and a trace value of 2.0 the result is 0.8, of \<^verbatim>\<open>depress_\<close> and of a
  \<^verbatim>\<open>send\<close> with an empty history.
\<close>

theorem depression_step:
  "weight_' (conn (send k e t_lastspike cp c)) =
     (let dendritic_delay = step_get_ms k (delay_' c);
          weight_before = weight_' (fst (facilitation cp t_lastspike dendritic_delay
              (get_history (node k (target_' c)) (t_lastspike - dendritic_delay)
                 (stamp_ms e - dendritic_delay)) (c, [])));
          trace_value = get_K_value (node k (target_' c)) (stamp_ms e - dendritic_delay)
      in max 0 (weight_before - lambda_' cp * alpha_' cp * weight_before * trace_value)) \<and>
   depress_' 1.0 2.0 (cp\<lparr>lambda_' := 0.1, alpha_' := 1.0\<rparr>) = 0.8 \<and>
   weight_' (conn (send \<lparr>step_get_ms = ms, node = (\<lambda>n. \<lparr>get_history = (\<lambda>t1 t2. []),
                                                          get_K_value = (\<lambda>t. 2.0)\<rparr>)\<rparr>
                     e t_lastspike (cp\<lparr>lambda_' := 0.1, alpha_' := 1.0\<rparr>)
                     (c\<lparr>weight_' := 1.0\<rparr>))) = 0.8"
proof (intro conjI)
  show "weight_' (conn (send k e t_lastspike cp c)) =
     (let dendritic_delay = step_get_ms k (delay_' c);
          weight_before = weight_' (fst (facilitation cp t_lastspike dendritic_delay
              (get_history (node k (target_' c)) (t_lastspike - dendritic_delay)
                 (stamp_ms e - dendritic_delay)) (c, [])));
          trace_value = get_K_value (node k (target_' c)) (stamp_ms e - dendritic_delay)
      in max 0 (weight_before - lambda_' cp * alpha_' cp * weight_before * trace_value))"
    by (simp only: Let_def send_weight depress_max)
  show "depress_' 1.0 2.0 (cp\<lparr>lambda_' := 0.1, alpha_' := 1.0\<rparr>) = 0.8"
    by (simp add: depress_'_def Let_def)
  show "weight_' (conn (send \<lparr>step_get_ms = ms, node = (\<lambda>n. \<lparr>get_history = (\<lambda>t1 t2. []),
                                                          get_K_value = (\<lambda>t. 2.0)\<rparr>)\<rparr>
                     e t_lastspike (cp\<lparr>lambda_' := 0.1, alpha_' := 1.0\<rparr>)
                     (c\<lparr>weight_' := 1.0\<rparr>))) = 0.8"
    by (simp add: send_weight depress_'_def Let_def)
qed



text \<open>
  Claim C4, as the code has it. \<^verbatim>\<open>send\<close> replays the history for potentiation, then depresses
  the weight once, then forwards the event to the target with the updated weight and the
  connection's delay and receptor port, which the call leaves unchanged, and only then updates
  the presynaptic trace: the event is forwarded before the trace update, not after it.
\<close>

theorem send_forwards_then_updates_trace:
  "code_step_order (effects (send k e t_lastspike cp c)) \<and>
   (\<exists>ws. effects (send k e t_lastspike cp c) =
      map Write_weight ws @
      [Write_weight (weight_' (conn (send k e t_lastspike cp c))),
       Deliver (event (send k e t_lastspike cp c)),
       Write_Kplus (Kplus_' (conn (send k e t_lastspike cp c)))]) \<and>
   event (send k e t_lastspike cp c) =
     e\<lparr>receiver := Some (target_' c), weight := weight_' (conn (send k e t_lastspike cp c)),
       delay := delay_' c, rport := rport_' c\<rparr> \<and>
   delay_' (conn (send k e t_lastspike cp c)) = delay_' c \<and>
   rport_' (conn (send k e t_lastspike cp c)) = rport_' c"
proof -
  obtain ws where ws:
    "snd (facilitation cp t_lastspike (step_get_ms k (delay_' c))
            (get_history (node k (target_' c)) (t_lastspike - step_get_ms k (delay_' c))
               (stamp_ms e - step_get_ms k (delay_' c))) (c, [])) = [] @ map Write_weight ws"
    using facilitation_effects by blast
  have eq: "effects (send k e t_lastspike cp c) =
      map Write_weight ws @
      [Write_weight (weight_' (conn (send k e t_lastspike cp c))),
       Deliver (event (send k e t_lastspike cp c)),
       Write_Kplus (Kplus_' (conn (send k e t_lastspike cp c)))]"
    using ws by (simp add: effects_send)
  have "code_step_order (effects (send k e t_lastspike cp c))"
    unfolding eq code_step_order_def
    by (simp add: list_all_map_Write_weight rev_map [symmetric])
  then show ?thesis using eq event_send send_fixed by blast
qed

text \<open>
  Claim C4, as the specification states it, fails: on the example connection the effects of
  \<^verbatim>\<open>send\<close> do not end with the trace update followed by the delivery of the event.
\<close>

theorem send_step_order_counterexample:
  "\<not> spec_step_order (effects (send ex_kernel (ex_event 10) 0 ex_cp ex_conn))"
  by (simp add: spec_step_order_def send_def ex_kernel_def ex_event_def ex_cp_def ex_conn_def
      ex_post_def Let_def)

text \<open>
  Claim C5. With a \<open>tau_plus\<close> other than 0, after a \<^verbatim>\<open>send\<close> call the presynaptic trace is the old
  trace times \<open>exp ((t_lastspike - t_spike) / tau_plus)\<close> plus 1.0; and a trace that is not
  negative stays so, after one call and after any number of calls.
\<close>

theorem presynaptic_trace_update:
  assumes "tau_plus_' cp \<noteq> 0"
    and "list_all (\<lambda>(k, e, t_lastspike, cp). tau_plus_' cp \<noteq> 0) calls"
    and "0 \<le> Kplus_' c"
  shows "Kplus_' (conn (send k e t_lastspike cp c)) =
           Kplus_' c * exp ((t_lastspike - stamp_ms e) / tau_plus_' cp) + 1.0 \<and>
         0 \<le> Kplus_' (conn (send k e t_lastspike cp c)) \<and>
         0 \<le> Kplus_' (sends calls c)"
proof (intro conjI)
  show "Kplus_' (conn (send k e t_lastspike cp c)) =
           Kplus_' c * exp ((t_lastspike - stamp_ms e) / tau_plus_' cp) + 1.0"
    by (simp add: send_Kplus_eq)
  have step: "0 \<le> Kplus_' (conn (send k e t_lastspike cp c))"
    if "0 \<le> Kplus_' c" for k e t_lastspike cp c
    using that by (simp add: send_Kplus_eq)
  show "0 \<le> Kplus_' (conn (send k e t_lastspike cp c))"
    using assms(3) by (rule step)
  show "0 \<le> Kplus_' (sends calls c)"
    using assms(3)
  proof (induction calls arbitrary: c)
    case Nil
    then show ?case by simp
  next
    case (Cons call calls)
    obtain k e t_lastspike cp where call: "call = (k, e, t_lastspike, cp)" by (cases call)
    show ?case using Cons.IH [OF step [OF Cons.prems, of k e t_lastspike cp]]
      by (simp add: call)
  qed
qed

theorem presynaptic_trace_update_witness:
  "tau_plus_' ex_cp \<noteq> 0 \<and> 0 \<le> Kplus_' ex_conn \<and>
   Kplus_' (conn (send ex_kernel (ex_event 10) 0 ex_cp ex_conn)) = exp (- (1 / 2)) + 1 \<and>
   0 \<le> Kplus_' (sends [(ex_kernel, ex_event 10, 0, ex_cp), (ex_kernel, ex_event 30, 10, ex_cp)]
                  ex_conn)"
proof -
  have h1: "tau_plus_' ex_cp \<noteq> 0" by (simp add: ex_cp_def)
  have h2: "list_all (\<lambda>(k, e, t_lastspike, cp). tau_plus_' cp \<noteq> 0)
              [(ex_kernel, ex_event 10, 0, ex_cp), (ex_kernel, ex_event 30, 10, ex_cp)]"
    by (simp add: ex_cp_def)
  have h3: "0 \<le> Kplus_' ex_conn" by (simp add: ex_conn_def)
  note T = presynaptic_trace_update [OF h1 h2 h3, of ex_kernel "ex_event 10" 0]
  have ev: "Kplus_' ex_conn * exp ((0 - stamp_ms (ex_event 10)) / tau_plus_' ex_cp) + 1.0 =
            exp (- (1 / 2)) + 1"
    by (simp add: ex_cp_def ex_conn_def ex_event_def)
  have "Kplus_' (conn (send ex_kernel (ex_event 10) 0 ex_cp ex_conn)) = exp (- (1 / 2)) + 1"
    using T [THEN conjunct1] ev by (rule trans)
  then show ?thesis using h1 h3 T by blast
qed

text \<open>
  Claim C8. With a weight exponent \<open>mu\<close> of 0 (and a \<open>tau_plus\<close> other than 0), one potentiation
  pairing adds exactly \<open>lambda * presynaptic_trace * exp (\<Delta>t / tau_plus)\<close> to the weight: the
  increment is the same for any two weights, and the loop over one entry that is not skipped
  adds it to the weight of the connection.
\<close>

theorem weight_exponent_zero:
  assumes "mu_' cp = 0" and "tau_plus_' cp \<noteq> 0" and "t_lastspike - (t_' h + dd) \<noteq> 0"
  shows "facilitate_' w (presynaptic_trace * exp (Delta_t / tau_plus_' cp)) cp =
           w + lambda_' cp * presynaptic_trace * exp (Delta_t / tau_plus_' cp) \<and>
         facilitate_' w (presynaptic_trace * exp (Delta_t / tau_plus_' cp)) cp - w =
           facilitate_' w' (presynaptic_trace * exp (Delta_t / tau_plus_' cp)) cp - w' \<and>
         weight_' (fst (facilitation cp t_lastspike dd [h] (c, effs))) =
           weight_' c +
           lambda_' cp * Kplus_' c * exp ((t_lastspike - (t_' h + dd)) / tau_plus_' cp)"
  using assms by (simp add: facilitate_'_def std_pow_zero_exponent Let_def)

theorem weight_exponent_zero_witness:
  "mu_' (ex_cp\<lparr>mu_' := 0\<rparr>) = 0 \<and> tau_plus_' (ex_cp\<lparr>mu_' := 0\<rparr>) \<noteq> 0 \<and>
   (3::real) - (t_' \<lparr>t_' = 5\<rparr> + 1) \<noteq> 0 \<and>
   facilitate_' 1 (1 * exp (- 3 / tau_plus_' (ex_cp\<lparr>mu_' := 0\<rparr>))) (ex_cp\<lparr>mu_' := 0\<rparr>) - 1 =
     facilitate_' 1000 (1 * exp (- 3 / tau_plus_' (ex_cp\<lparr>mu_' := 0\<rparr>))) (ex_cp\<lparr>mu_' := 0\<rparr>) - 1000 \<and>
   weight_' (fst (facilitation (ex_cp\<lparr>mu_' := 0\<rparr>) 3 1 [\<lparr>t_' = 5\<rparr>] (ex_conn, []))) =
     1 + 1 / 10 * exp (- (3 / 20))"
proof -
  have h1: "mu_' (ex_cp\<lparr>mu_' := 0\<rparr>) = 0" by simp
  have h2: "tau_plus_' (ex_cp\<lparr>mu_' := 0\<rparr>) \<noteq> 0" by (simp add: ex_cp_def)
  have h3: "(3::real) - (t_' \<lparr>t_' = 5\<rparr> + 1) \<noteq> 0" by simp
  note T = weight_exponent_zero [OF h1 h2 h3, of 1 1 "- 3" 1000 ex_conn "[]"]
  have ev: "weight_' ex_conn + lambda_' (ex_cp\<lparr>mu_' := 0\<rparr>) * Kplus_' ex_conn *
              exp ((3 - (t_' \<lparr>t_' = 5\<rparr> + 1)) / tau_plus_' (ex_cp\<lparr>mu_' := 0\<rparr>)) =
            1 + 1 / 10 * exp (- (3 / 20))"
    by (simp add: ex_cp_def ex_conn_def)
  have "weight_' (fst (facilitation (ex_cp\<lparr>mu_' := 0\<rparr>) 3 1 [\<lparr>t_' = 5\<rparr>] (ex_conn, []))) =
        1 + 1 / 10 * exp (- (3 / 20))"
    using T [THEN conjunct2, THEN conjunct2] ev by (rule trans)
  then show ?thesis using h1 h2 h3 T by blast
qed

text \<open>
  Claim C10. For a synapse whose weight is 0 and a weight exponent \<open>mu\<close> greater than 0, a
  \<^verbatim>\<open>send\<close> call leaves the weight at 0, whatever the history and the trace values: a pairing
  adds \<open>lambda * 0 ^ mu * kplus = 0\<close> and the depression of a weight of 0 is 0.
\<close>

theorem zero_weight_fixed_point:
  assumes "weight_' c = 0" and "0 < mu_' cp"
  shows "weight_' (conn (send k e t_lastspike cp c)) = 0 \<and>
         facilitate_' 0 kplus cp = 0 \<and>
         depress_' 0 kminus cp = 0"
proof -
  have "depress_' 0 km cp = 0" for km
    by (simp add: depress_'_def Let_def)
  then show ?thesis
    using assms
    by (simp add: send_weight facilitation_weight foldl_spec_pairing_zero facilitate_'_def
        std_pow_zero_base)
qed

theorem zero_weight_fixed_point_witness:
  "weight_' (ex_conn\<lparr>weight_' := 0\<rparr>) = 0 \<and> 0 < mu_' ex_cp \<and>
   weight_' (conn (send ex_kernel (ex_event 10) 0 ex_cp (ex_conn\<lparr>weight_' := 0\<rparr>))) = 0 \<and>
   facilitate_' 0 5 ex_cp = 0 \<and> depress_' 0 2 ex_cp = 0"
proof -
  have h1: "weight_' (ex_conn\<lparr>weight_' := 0\<rparr>) = 0" by simp
  have h2: "0 < mu_' ex_cp" by (simp add: ex_cp_def)
  show ?thesis
    using h1 h2 zero_weight_fixed_point [OF h1 h2, of ex_kernel "ex_event 10" 0 5 2]
    by blast
qed

section \<open>Facts about the neuron\<close>

subsection \<open>Connection setup\<close>

text \<open>
  Claim C9. \<^verbatim>\<open>connect_sender\<close> for a \<^verbatim>\<open>SpikeEvent\<close> returns port 0 when the receptor type is 0
  and throws \<^verbatim>\<open>UnknownReceptorType\<close> for every other receptor type; so do the neuron's
  \<^verbatim>\<open>check_connection\<close> on a connection of this synapse type and, between two such neurons,
  the synapse's \<^verbatim>\<open>check_connection\<close>, which on success registers the connection with the
  receiver. The failure belongs to connection setup: \<^verbatim>\<open>send\<close> has no failure at all, and
  a step of the neuron does not fail with \<^verbatim>\<open>UnknownReceptorType\<close>.
\<close>

theorem unknown_receptor_at_connection_setup:
  "connect_sender nm receptor_type =
     (if receptor_type = 0 then Inr 0 else Inl (UnknownReceptorType receptor_type nm)) \<and>
   iaf_chs_2007_check_connection STDPPLConnectionHom_check_event (connect_sender nm)
       receptor_type =
     (if receptor_type = 0 then Inr 0 else Inl (UnknownReceptorType receptor_type nm)) \<and>
   STDPPLConnectionHom_check_connection k
       (iaf_chs_2007_check_connection STDPPLConnectionHom_check_event (connect_sender nm))
       r receptor_type t_lastspike c registered =
     (if receptor_type = 0
      then Inr (c\<lparr>target_' := r, rport_' := 0\<rparr>,
                registered @ [t_lastspike - step_get_ms k (delay_' c)])
      else Inl (UnknownReceptorType receptor_type nm)) \<and>
   step propagate reset p v s buffered_synaptic_input buffered_current \<noteq>
     Inl (UnknownReceptorType receptor_type nm)"
  by (simp add: connect_sender_def iaf_chs_2007_check_connection_def
      STDPPLConnectionHom_check_event_def STDPPLConnectionHom_check_connection_def
      ConnectionHetWD_check_connection_def step_def read_noise_def Let_def
      split: prod.splits)

subsection \<open>Setting the status\<close>

text \<open>
  What a failed \<^verbatim>\<open>set_status\<close> leaves: the parameters and the members of the parent class as
  they were, and the state as it was but for the noise cursor, which is 0 when the dictionary
  brought a noise vector.
\<close>

lemma set_status_failure:
  assumes "set_status State_set Archiving_Node_set_status d n = (Some ex, n1)"
  shows "P_' n1 = P_' n \<and> Archiving_Node_members n1 = Archiving_Node_members n \<and>
         S_' n1 = (case d ''noise'' of
                     Some (DoubleVectorDatum v) \<Rightarrow> (S_' n)\<lparr>position_' := 0\<rparr>
                   | _ \<Rightarrow> S_' n)"
  using assms
  by (auto simp: set_status_def Parameters_set_def Let_def
      split: prod.splits sum.splits option.splits Datum.splits if_splits)

text \<open>
  Claim C6 does not hold of the code. On the example neuron, whose noise cursor stands at 3,
  a dictionary with a new noise vector and a value that the parent class rejects makes
  \<^verbatim>\<open>set_status\<close> throw \<^verbatim>\<open>BadProperty\<close> and leaves the cursor at 0, with the old noise vector
  still in place; so does a dictionary with a new noise vector and a time constant that
  \<^verbatim>\<open>Parameters_::set\<close> itself rejects.
\<close>

theorem set_status_failure_resets_position:
  "set_status ex_State_set ex_Archiving_Node_set_status ex_dict ex_neuron =
     (Some (BadProperty ''All time constants must be strictly positive.''),
      ex_neuron\<lparr>S_' := (S_' ex_neuron)\<lparr>position_' := 0\<rparr>\<rparr>) \<and>
   set_status ex_State_set ex_Archiving_Node_set_status ex_dict_tau ex_neuron =
     (Some (BadProperty ''All time constants must be strictly positive.''),
      ex_neuron\<lparr>S_' := (S_' ex_neuron)\<lparr>position_' := 0\<rparr>\<rparr>) \<and>
   S_' (snd (set_status ex_State_set ex_Archiving_Node_set_status ex_dict ex_neuron)) \<noteq>
     S_' ex_neuron \<and>
   position_' (S_' ex_neuron) = 3 \<and>
   noise_' (P_' ex_neuron) = [0.1, 0.2, 0.3, 0.4, 0.5]"
  by (simp add: set_status_def Parameters_set_def ex_State_set_def
      ex_Archiving_Node_set_status_def ex_dict_def ex_dict_tau_def ex_neuron_def
      updateValue_def Let_def)

subsection \<open>The noise cursor\<close>

lemma step_ok:
  assumes "position_' s < length (noise_' p)"
  shows "\<exists>s1 spiked. step propagate reset p v s syn cur = Inr (s1, spiked) \<and>
           position_' s1 = position_' s + 1"
  using assms by (simp add: step_def read_noise_def Let_def split: prod.splits)

lemma step_exhausted:
  assumes "length (noise_' p) \<le> position_' s"
  shows "step propagate reset p v s syn cur = Inl NoiseExhausted"
  using assms by (simp add: step_def read_noise_def)

lemma steps_ok:
  assumes "position_' s + length inputs \<le> length (noise_' p)"
  shows "\<exists>s1 spikes. steps propagate reset p v inputs s =
            Inr (s1, spikes, take (length inputs) (drop (position_' s) (noise_' p))) \<and>
          position_' s1 = position_' s + length inputs \<and> length spikes = length inputs"
  using assms
proof (induction inputs arbitrary: s)
  case Nil
  show ?case by simp
next
  case (Cons a inputs)
  obtain syn cur where a: "a = (syn, cur)" by (cases a)
  have lt: "position_' s < length (noise_' p)" using Cons.prems by simp
  obtain s1 spiked where s1: "step propagate reset p v s syn cur = Inr (s1, spiked)"
      "position_' s1 = position_' s + 1"
    using step_ok [OF lt] by blast
  have "position_' s1 + length inputs \<le> length (noise_' p)" using Cons.prems s1(2) by simp
  from Cons.IH [OF this] obtain s2 spikes where s2:
      "steps propagate reset p v inputs s1 =
         Inr (s2, spikes, take (length inputs) (drop (position_' s1) (noise_' p)))"
      "position_' s2 = position_' s1 + length inputs" "length spikes = length inputs"
    by blast
  have "take (length (a # inputs)) (drop (position_' s) (noise_' p)) =
        noise_' p ! position_' s # take (length inputs) (drop (position_' s1) (noise_' p))"
    using lt s1(2) by (simp add: Cons_nth_drop_Suc [symmetric])
  then show ?case using s1 s2 by (simp add: a)
qed

lemma steps_append:
  "steps propagate reset p v (xs @ ys) s =
     (case steps propagate reset p v xs s of
        Inl ex \<Rightarrow> Inl ex
      | Inr (s1, spikes, consumed) \<Rightarrow>
          (case steps propagate reset p v ys s1 of
             Inl ex \<Rightarrow> Inl ex
           | Inr (s2, spikes2, consumed2) \<Rightarrow> Inr (s2, spikes @ spikes2, consumed @ consumed2)))"
proof (induction xs arbitrary: s)
  case Nil
  show ?case by (simp split: sum.splits)
next
  case (Cons a xs)
  obtain syn cur where a: "a = (syn, cur)" by (cases a)
  show ?case by (simp add: a Cons.IH split: sum.splits prod.splits)
qed

text \<open>
  Claim C7. Given a noise sequence of length \<open>N\<close> and a cursor at 0, the first \<open>N\<close> step calls
  succeed, read the noise values in the order of the indices \<open>0..N-1\<close> and leave the cursor
  at \<open>N\<close> (after the first \<open>n \<le> N\<close> calls the values read are the first \<open>n\<close> of the sequence and
  the cursor is at \<open>n\<close>), and the call after them fails with \<open>NoiseExhausted\<close>.
\<close>

theorem noise_cursor_exhaustion:
  assumes "position_' s = 0" and "length inputs = length (noise_' p)"
    and "n \<le> length (noise_' p)"
  shows "(\<exists>s1 spikes. steps propagate reset p v inputs s = Inr (s1, spikes, noise_' p) \<and>
            position_' s1 = length (noise_' p) \<and> length spikes = length (noise_' p)) \<and>
         (\<exists>s1 spikes.
            steps propagate reset p v (take n inputs) s = Inr (s1, spikes, take n (noise_' p)) \<and>
            position_' s1 = n) \<and>
         steps propagate reset p v (inputs @ [last_input]) s = Inl NoiseExhausted"
proof (intro conjI)
  show full: "\<exists>s1 spikes. steps propagate reset p v inputs s = Inr (s1, spikes, noise_' p) \<and>
            position_' s1 = length (noise_' p) \<and> length spikes = length (noise_' p)"
    using steps_ok [of s inputs p propagate reset v] assms(1,2) by simp
  have len: "length (take n inputs) = n" using assms(2,3) by simp
  have "position_' s + length (take n inputs) \<le> length (noise_' p)"
    using assms(1,3) len by simp
  from steps_ok [OF this, of propagate reset v]
  show "\<exists>s1 spikes.
            steps propagate reset p v (take n inputs) s = Inr (s1, spikes, take n (noise_' p)) \<and>
            position_' s1 = n"
    unfolding len using assms(1) by auto
  obtain s1 spikes where s1: "steps propagate reset p v inputs s = Inr (s1, spikes, noise_' p)"
      "position_' s1 = length (noise_' p)"
    using full by blast
  obtain syn cur where l: "last_input = (syn, cur)" by (cases last_input)
  have "step propagate reset p v s1 syn cur = Inl NoiseExhausted"
    using step_exhausted [of p s1] s1(2) by simp
  then show "steps propagate reset p v (inputs @ [last_input]) s = Inl NoiseExhausted"
    by (simp add: steps_append s1(1) l)
qed

theorem noise_cursor_exhaustion_witness:
  "position_' ((S_' ex_neuron)\<lparr>position_' := 0\<rparr>) = 0 \<and>
   length [(0, 0), (1, 0), (0, 0), (0, 0), (2, 0 :: real)] = length (noise_' (P_' ex_neuron)) \<and>
   (2::nat) \<le> length (noise_' (P_' ex_neuron)) \<and>
   (\<exists>s1 spikes.
      steps ex_propagate ex_reset (P_' ex_neuron) ex_Variables
        [(0, 0), (1, 0), (0, 0), (0, 0), (2, 0)] ((S_' ex_neuron)\<lparr>position_' := 0\<rparr>) =
        Inr (s1, spikes, [0.1, 0.2, 0.3, 0.4, 0.5]) \<and> position_' s1 = 5) \<and>
   steps ex_propagate ex_reset (P_' ex_neuron) ex_Variables
        ([(0, 0), (1, 0), (0, 0), (0, 0), (2, 0)] @ [(0, 0)])
        ((S_' ex_neuron)\<lparr>position_' := 0\<rparr>) =
     Inl NoiseExhausted"
proof -
  have h1: "position_' ((S_' ex_neuron)\<lparr>position_' := 0\<rparr>) = 0" by simp
  have h2: "length [(0, 0), (1, 0), (0, 0), (0, 0), (2, 0 :: real)] =
            length (noise_' (P_' ex_neuron))"
    by (simp add: ex_neuron_def)
  have h3: "(2::nat) \<le> length (noise_' (P_' ex_neuron))" by (simp add: ex_neuron_def)
  have n: "noise_' (P_' ex_neuron) = [0.1, 0.2, 0.3, 0.4, 0.5]" by (simp add: ex_neuron_def)
  have l: "length (noise_' (P_' ex_neuron)) = 5" by (simp add: ex_neuron_def)
  note T = noise_cursor_exhaustion [OF h1 h2 h3, of ex_propagate ex_reset ex_Variables "(0, 0)"]
  have "\<exists>s1 spikes.
      steps ex_propagate ex_reset (P_' ex_neuron) ex_Variables
        [(0, 0), (1, 0), (0, 0), (0, 0), (2, 0)] ((S_' ex_neuron)\<lparr>position_' := 0\<rparr>) =
        Inr (s1, spikes, [0.1, 0.2, 0.3, 0.4, 0.5]) \<and> position_' s1 = 5"
    using T [THEN conjunct1] by (metis l n)
  then show ?thesis using h1 h2 h3 T by blast
qed

end
